theory Spec2Isabelle
  imports Complex_Main "HOL-Library.Word"
begin

section \<open>Errors and results\<close>

text \<open>
  The exceptions of Python that the two source files can raise. A function that can raise
  returns \<open>error + 'a\<close>, with \<open>Inl\<close> for the exception.
\<close>

datatype error =
    TypeError | ValueError | ZeroDivisionError | IndexError | StopIteration
  | NameError | FileNotFoundError | FileExistsError | NotADirectoryError | IsADirectoryError
  | OSError | RuntimeError

section \<open>model_builder.py\<close>

text \<open>
  A layer stack is the list of the arguments of \<open>nn.Sequential\<close>, each layer with the
  arguments its constructor is given in the source.
\<close>

datatype layer =
    Conv2d nat nat nat nat
  | ReLU
  | MaxPool2d nat nat
  | AdaptiveAvgPool2d nat
  | Flatten
  | Linear nat nat
  | LazyLinear nat
  | Dropout rat
  | ResNet18_IMAGENET1K_V1

datatype loss_fn = CrossEntropyLoss

datatype optimizer = Adam

definition simple_network :: "layer list" where
  "simple_network =
    [Conv2d 1 64 3 1, ReLU, MaxPool2d 2 2,
     Conv2d 64 64 3 1, ReLU, MaxPool2d 2 2,
     Conv2d 64 64 3 1, ReLU, MaxPool2d 2 2,
     Conv2d 64 64 3 1, ReLU, MaxPool2d 2 2,
     Flatten, Linear 576 576, ReLU, Linear 576 7]"

definition expanded_network :: "layer list" where
  "expanded_network =
    [AdaptiveAvgPool2d 192,
     Conv2d 1 64 3 1, ReLU, MaxPool2d 2 2,
     Conv2d 64 64 3 1, ReLU, MaxPool2d 2 2,
     Conv2d 64 64 3 1, ReLU, MaxPool2d 2 2,
     Conv2d 64 64 3 1, ReLU, MaxPool2d 2 2,
     Conv2d 64 64 3 1, ReLU, MaxPool2d 2 2,
     Conv2d 64 64 3 1, ReLU, MaxPool2d 2 2,
     Flatten, Linear 576 576, ReLU, Linear 576 7]"

definition resnet_network :: "layer list" where
  "resnet_network =
    [AdaptiveAvgPool2d 224, Conv2d 1 3 3 0,
     ResNet18_IMAGENET1K_V1,
     Flatten,
     LazyLinear 64, ReLU, Dropout (1 / 2),
     Linear 64 32, ReLU, Dropout (1 / 4),
     Linear 32 32, ReLU, Dropout (15 / 100),
     Linear 32 7]"

text \<open>
  \<open>str.lower()\<close> on the characters of a \<open>string\<close>: the letters \<open>A\<close> to \<open>Z\<close> (codes 65 to
  90) move to \<open>a\<close> to \<open>z\<close>, every other character of the 8-bit range stays.
\<close>

definition lower_char :: "char \<Rightarrow> char" where
  "lower_char c =
    (let n = (of_char c :: nat) in if 65 \<le> n \<and> n \<le> 90 then char_of (n + 32) else c)"

definition lower :: "string \<Rightarrow> string" where
  "lower s = map lower_char s"

definition define_layers :: "string \<Rightarrow> error + layer list" where
  "define_layers name =
    (let name = lower name in
     if name = ''simple'' then Inr simple_network
     else if name = ''expanded'' then Inr expanded_network
     else if name = ''resnet'' then Inr resnet_network
     else Inl ValueError)"

definition define_loss :: loss_fn where
  "define_loss = CrossEntropyLoss"

definition define_optimizer :: "'p \<Rightarrow> optimizer" where
  "define_optimizer neural_network_parameters = Adam"

text \<open>
  A Python call of a function that has exactly one required positional parameter and no
  default: with any other number of arguments the call raises \<open>TypeError\<close> before the body
  runs.
\<close>

definition call1 :: "('a \<Rightarrow> error + 'b) \<Rightarrow> 'a list \<Rightarrow> error + 'b" where
  "call1 f args = (case args of [a] \<Rightarrow> f a | _ \<Rightarrow> Inl TypeError)"

text \<open>
  The upper-case form of a character, to say what "equal case-insensitively" means without
  \<open>lower\<close>: two strings agree up to case when they have the same length and at each
  position the characters are equal or one is the other's upper-case form.
\<close>

definition upper_char :: "char \<Rightarrow> char" where
  "upper_char c =
    (let n = (of_char c :: nat) in if 97 \<le> n \<and> n \<le> 122 then char_of (n - 32) else c)"

fun same_up_to_case :: "string \<Rightarrow> string \<Rightarrow> bool" where
  "same_up_to_case [] [] = True"
| "same_up_to_case (c # cs) (d # ds) =
    ((c = d \<or> c = upper_char d \<or> d = upper_char c) \<and> same_up_to_case cs ds)"
| "same_up_to_case _ _ = False"

definition lower_letter :: "char \<Rightarrow> bool" where
  "lower_letter d = (97 \<le> (of_char d :: nat) \<and> (of_char d :: nat) \<le> 122)"

section \<open>main.py: the network\<close>

datatype device = cuda | cpu

definition get_processing_device :: "bool \<Rightarrow> device" where
  "get_processing_device cuda_is_available = (if cuda_is_available then cuda else cpu)"

text \<open>
  The network object: the layer stack, the loss and the optimizer of \<open>model_builder\<close>, the
  device it was moved to, and its parameter values (the \<open>state_dict\<close>), which are the
  framework's and stay abstract.
\<close>

record 'p NeuralNetwork =
  layers :: "layer list"
  loss :: loss_fn
  optimizer :: optimizer
  on_device :: device
  state_dict :: 'p

text \<open>
  \<open>NeuralNetwork.__init__\<close>. The source calls \<open>model_builder.define_layers()\<close> with no
  argument. \<open>init_params\<close> gives the framework's initial parameter values of a layer stack.
\<close>

definition NeuralNetwork_init :: "bool \<Rightarrow> (layer list \<Rightarrow> 'p) \<Rightarrow> error + 'p NeuralNetwork" where
  "NeuralNetwork_init cuda_is_available init_params =
    (case call1 define_layers [] of
       Inl e \<Rightarrow> Inl e
     | Inr ls \<Rightarrow>
         Inr \<lparr>layers = ls, loss = define_loss, optimizer = define_optimizer (init_params ls),
              on_device = get_processing_device cuda_is_available,
              state_dict = init_params ls\<rparr>)"

section \<open>main.py: values, output and indexing\<close>

text \<open>
  A float of the program: a finite value, kept as an exact rational (rounding is not
  modelled), positive infinity, or not-a-number. The last two arise only from a tensor
  divided by zero.
\<close>

datatype pyfloat = Finite rat | PosInf | NaN

text \<open>\<open>a >= b\<close> on floats: false as soon as one side is not-a-number.\<close>

fun float_ge :: "pyfloat \<Rightarrow> pyfloat \<Rightarrow> bool" where
  "float_ge (Finite a) (Finite b) = (b \<le> a)"
| "float_ge PosInf (Finite b) = True"
| "float_ge PosInf PosInf = True"
| "float_ge (Finite a) PosInf = False"
| "float_ge NaN b = False"
| "float_ge a NaN = False"

text \<open>
  A printed line is the list of the pieces of its f-string: literal text, an interpolated
  integer (\<open>IntR w\<close>: right-aligned in width \<open>w\<close>), an interpolated float (\<open>Float4\<close>: with
  the format \<open>.4\<close>) or truth value, text between single quotes (\<open>Quoted\<close>), a line break,
  a tabulator, or the table that \<open>torchsummary\<close> prints for a layer stack.
\<close>

datatype piece =
    Txt string | Quoted string | IntV int | IntR nat int | FloatV pyfloat | Float4 pyfloat
  | BoolV bool | Summary "layer list" | Nl | Tab

type_synonym line = "piece list"

text \<open>
  Indexing a Python list or a tensor along its first axis: a negative index counts from
  the end, an index out of range raises \<open>IndexError\<close>.
\<close>

definition py_index :: "'a list \<Rightarrow> int \<Rightarrow> error + 'a" where
  "py_index xs i =
    (let n = int (length xs); j = (if i < 0 then i + n else i)
     in if 0 \<le> j \<and> j < n then Inr (xs ! nat j) else Inl IndexError)"

text \<open>\<open>xs[i] += 1\<close> on a Python list of integers.\<close>

definition py_incr :: "int list \<Rightarrow> int \<Rightarrow> error + int list" where
  "py_incr xs i =
    (let n = int (length xs); j = (if i < 0 then i + n else i)
     in if 0 \<le> j \<and> j < n then Inr (xs[nat j := xs ! nat j + 1]) else Inl IndexError)"

text \<open>\<open>a / b\<close> on Python integers.\<close>

definition py_truediv :: "int \<Rightarrow> int \<Rightarrow> error + pyfloat" where
  "py_truediv a b = (if b = 0 then Inl ZeroDivisionError else Inr (Finite (of_int a / of_int b)))"

section \<open>main.py: dataset_details\<close>

text \<open>The loop \<open>for label in labels: counts[label] += 1\<close>.\<close>

fun count_labels :: "int list \<Rightarrow> int list \<Rightarrow> error + int list" where
  "count_labels counts [] = Inr counts"
| "count_labels counts (label # labels) =
    (case py_incr counts label of
       Inl e \<Rightarrow> Inl e
     | Inr counts' \<Rightarrow> count_labels counts' labels)"

text \<open>
  The percentage \<open>counts[k] / total * 100\<close> of the report; the f-string evaluates all seven
  before anything is printed.
\<close>

definition percent :: "int list \<Rightarrow> int \<Rightarrow> int \<Rightarrow> error + pyfloat" where
  "percent counts tot k =
    (case py_index counts k of
       Inl e \<Rightarrow> Inl e
     | Inr c \<Rightarrow>
        (case py_truediv c tot of
           Inl e \<Rightarrow> Inl e
         | Inr (Finite q) \<Rightarrow> Inr (Finite (q * 100))
         | Inr f \<Rightarrow> Inr f))"

fun percents :: "int list \<Rightarrow> int \<Rightarrow> int list \<Rightarrow> error + pyfloat list" where
  "percents counts tot [] = Inr []"
| "percents counts tot (k # ks) =
    (case percent counts tot k of
       Inl e \<Rightarrow> Inl e
     | Inr p \<Rightarrow> (case percents counts tot ks of Inl e \<Rightarrow> Inl e | Inr ps \<Rightarrow> Inr (p # ps)))"

definition class_names :: "string list" where
  "class_names =
    [''Angry:    '', ''Disgust:  '', ''Fear:     '', ''Happy:    '', ''Sad:      '',
     ''Surprise: '', ''Neutral:  '']"

definition details_line :: "string \<Rightarrow> int \<Rightarrow> int list \<Rightarrow> pyfloat list \<Rightarrow> line" where
  "details_line title tot counts ps =
    [Txt title, Txt '' Dataset: '', IntV tot] @
    concat (map (\<lambda>k. [Nl, Txt (class_names ! k), IntR 5 (counts ! k), Tab, FloatV (ps ! k), Txt ''%''])
              [0..<7])"

text \<open>
  \<open>dataset_details(title, labels)\<close>: the result is the error raised or the total returned (\<open>tot\<close>),
  with the lines printed so far.
\<close>

definition dataset_details :: "string \<Rightarrow> int list \<Rightarrow> line list \<Rightarrow> (error + int) \<times> line list" where
  "dataset_details title labels out =
    (case count_labels [0, 0, 0, 0, 0, 0, 0] labels of
       Inl e \<Rightarrow> (Inl e, out)
     | Inr counts \<Rightarrow>
        (let tot = sum_list counts in
         case percents counts tot [0, 1, 2, 3, 4, 5, 6] of
           Inl e \<Rightarrow> (Inl e, out)
         | Inr ps \<Rightarrow> (Inr tot, out @ [details_line title tot counts ps])))"

section \<open>main.py: test\<close>

text \<open>
  A batch of a dataloader is a pair of the images and the labels of its examples, and a
  dataloader is modelled by the list of the batches one iteration over it yields, so that
  \<open>len(dataloader)\<close> is the length of the list. \<open>predict\<close> is the network's forward pass
  followed by \<open>argmax\<close>, which is the framework's: one predicted label for each image of the
  batch.
\<close>

type_synonym 'i batch = "'i list \<times> int list"

text \<open>\<open>(label == model.predict(image)).sum()\<close>\<close>

definition count_equal :: "int list \<Rightarrow> int list \<Rightarrow> nat" where
  "count_equal label predicted = length (filter (\<lambda>(l, p). l = p) (zip label predicted))"

definition test ::
  "('m \<Rightarrow> 'i list \<Rightarrow> int list) \<Rightarrow> 'm \<Rightarrow> int \<Rightarrow> 'i batch list \<Rightarrow> error + pyfloat" where
  "test predict model batch dataloader =
    (let correct = sum_list (map (\<lambda>(image, label). count_equal label (predict model image)) dataloader);
         d = int (length dataloader) * batch
     in if d = 0 then
          \<comment> \<open>with no batch \<open>correct\<close> is still the Python integer 0; otherwise it is a tensor,
              whose division by zero gives nan or inf\<close>
          (if dataloader = [] then Inl ZeroDivisionError
           else if correct = 0 then Inr NaN else Inr PosInf)
        else Inr (Finite (of_nat correct / of_int d * 100)))"

text \<open>
  What the documentation of \<open>test\<close> promises, in the words of the specification: the number
  of test examples whose predicted label equals the true label, divided by the total number
  of test examples, times 100.
\<close>

definition accuracy_percentage :: "('m \<Rightarrow> 'i list \<Rightarrow> int list) \<Rightarrow> 'm \<Rightarrow> 'i batch list \<Rightarrow> rat" where
  "accuracy_percentage predict model dataloader =
    of_nat (sum_list (map (\<lambda>(image, label). count_equal label (predict model image)) dataloader))
    / of_nat (sum_list (map (\<lambda>(image, label). length label) dataloader)) * 100"

section \<open>main.py: FaceDataset\<close>

text \<open>
  A tensor of four axes is a list of lists of lists of lists, rectangular and with no empty
  axis, as the arrays of \<open>prepare_data\<close> are. \<open>torch.swapaxes\<close> on the axes other than the
  first is then a composition of transpositions of neighbouring axes.
\<close>

definition swapaxes_2_3 :: "'a list list list list \<Rightarrow> 'a list list list list" where
  "swapaxes_2_3 t = map (map transpose) t"

definition swapaxes_1_3 :: "'a list list list list \<Rightarrow> 'a list list list list" where
  "swapaxes_1_3 t = map (\<lambda>img. map transpose (transpose (map transpose img))) t"

text \<open>
  The two transformations of torchvision the source uses, with the arguments it gives
  them. The constructor of \<open>RandomRotation\<close> rejects a negative number of degrees.
\<close>

datatype transform = RandomRotation rat | RandomResizedCrop nat "rat \<times> rat"

definition RandomRotation_init :: "rat \<Rightarrow> error + transform" where
  "RandomRotation_init degrees = (if degrees < 0 then Inl ValueError else Inr (RandomRotation degrees))"

text \<open>
  The dataset: the image tensor (float32 values, kept as rationals), the label tensor of
  dtype \<open>torch.int\<close> (32 bits), and the composed transformation or \<open>None\<close>.
\<close>

record FaceDataset =
  images :: "rat list list list list"
  labels :: "32 word list"
  transform :: "transform list option"

definition FaceDataset_init ::
  "rat list list list list \<Rightarrow> int list \<Rightarrow> rat \<Rightarrow> rat \<Rightarrow> rat \<Rightarrow> error + FaceDataset" where
  "FaceDataset_init imgs lbls mini maxi rot =
    (let self = \<lparr>images = swapaxes_2_3 (swapaxes_1_3 imgs), labels = map word_of_int lbls,
                  transform = None\<rparr>
     in if mini = 1 \<and> maxi = 1 \<and> rot = 0 then Inr self
        else if mini = 1 \<and> maxi = 1 then
          (case RandomRotation_init rot of
             Inl e \<Rightarrow> Inl e
           | Inr r \<Rightarrow> Inr (self\<lparr>transform := Some [r]\<rparr>))
        else if rot = 0 then Inr (self\<lparr>transform := Some [RandomResizedCrop 48 (mini, maxi)]\<rparr>)
        else
          (case RandomRotation_init rot of
             Inl e \<Rightarrow> Inl e
           | Inr r \<Rightarrow> Inr (self\<lparr>transform := Some [RandomResizedCrop 48 (mini, maxi), r]\<rparr>)))"

definition FaceDataset_len :: "FaceDataset \<Rightarrow> nat" where
  "FaceDataset_len self = length (labels self)"

text \<open>
  \<open>__getitem__\<close>. \<open>apply_transform\<close> is the framework's application of a composed
  transformation to an image, which draws random numbers. The label is read back as a
  64-bit integer (\<open>LongTensor\<close>).
\<close>

definition FaceDataset_getitem ::
  "(transform list \<Rightarrow> rat list list list \<Rightarrow> rat list list list) \<Rightarrow> FaceDataset \<Rightarrow> int
    \<Rightarrow> error + (rat list list list \<times> int)" where
  "FaceDataset_getitem apply_transform self idx =
    (case py_index (images self) idx of
       Inl e \<Rightarrow> Inl e
     | Inr img \<Rightarrow>
        (case py_index (labels self) idx of
           Inl e \<Rightarrow> Inl e
         | Inr label \<Rightarrow>
            Inr (case transform self of None \<Rightarrow> img | Some t \<Rightarrow> apply_transform t img,
                 sint label)))"

section \<open>main.py: prepare_data\<close>

text \<open>A row of the data frame read from the CSV file.\<close>

record row =
  Usage :: string
  emotion :: int
  pixels :: string

text \<open>
  \<open>numpy.fromstring(s, dtype=int, sep=' ')\<close> on text: the decimal numerals of \<open>s\<close>, which white
  space separates. Reading stops at the first token that is not a numeral (numpy warns and
  returns what it has read so far).
\<close>

definition is_space :: "char \<Rightarrow> bool" where
  "is_space c = (let n = (of_char c :: nat) in n = 32 \<or> (9 \<le> n \<and> n \<le> 13))"

definition is_digit :: "char \<Rightarrow> bool" where
  "is_digit c = (let n = (of_char c :: nat) in 48 \<le> n \<and> n \<le> 57)"

definition dec_value :: "string \<Rightarrow> nat" where
  "dec_value s = foldl (\<lambda>a c. 10 * a + ((of_char c :: nat) - 48)) 0 s"

definition parse_int :: "string \<Rightarrow> int option" where
  "parse_int s =
    (case s of
       [] \<Rightarrow> None
     | c # cs \<Rightarrow>
        if c = CHR ''-'' then
          (if cs \<noteq> [] \<and> list_all is_digit cs then Some (- int (dec_value cs)) else None)
        else if c = CHR ''+'' then
          (if cs \<noteq> [] \<and> list_all is_digit cs then Some (int (dec_value cs)) else None)
        else if list_all is_digit s then Some (int (dec_value s)) else None)"

fun split_ws :: "string \<Rightarrow> string list" where
  "split_ws [] = [[]]"
| "split_ws (c # cs) =
    (if is_space c then [] # split_ws cs
     else (case split_ws cs of [] \<Rightarrow> [[c]] | f # fs \<Rightarrow> (c # f) # fs))"

definition tokens :: "string \<Rightarrow> string list" where
  "tokens s = filter (\<lambda>t. t \<noteq> []) (split_ws s)"

definition fromstring :: "string \<Rightarrow> int list" where
  "fromstring s = map the (takeWhile (\<lambda>v. v \<noteq> None) (map parse_int (tokens s)))"

text \<open>\<open>numpy.reshape(image, (48, 48))\<close>: 48 rows of 48, or \<open>ValueError\<close> when the size differs.\<close>

definition reshape_48_48 :: "'a list \<Rightarrow> error + 'a list list" where
  "reshape_48_48 img =
    (if length img = 48 * 48 then Inr (map (\<lambda>r. take 48 (drop (48 * r) img)) [0..<48])
     else Inl ValueError)"

text \<open>The loop over the rows, which fills \<open>images[i]\<close>.\<close>

fun fill_images :: "row list \<Rightarrow> error + int list list list" where
  "fill_images [] = Inr []"
| "fill_images (r # rs) =
    (case reshape_48_48 (fromstring (pixels r)) of
       Inl e \<Rightarrow> Inl e
     | Inr img \<Rightarrow> (case fill_images rs of Inl e \<Rightarrow> Inl e | Inr imgs \<Rightarrow> Inr (img # imgs)))"

definition prepare_data :: "row list \<Rightarrow> error + (rat list list list list \<times> int list)" where
  "prepare_data data =
    (let lbls = map emotion data in
     case fill_images data of
       Inl e \<Rightarrow> Inl e
     | Inr imgs \<Rightarrow> Inr (map (map (map (\<lambda>v. [of_int v / 255]))) imgs, lbls))"

text \<open>
  In the words of the specification: a string of exactly 2304 integers between 0 and 255,
  written in decimal digits with one space between neighbours.
\<close>

fun split_space :: "string \<Rightarrow> string list" where
  "split_space [] = [[]]"
| "split_space (c # cs) =
    (if c = CHR '' '' then [] # split_space cs
     else (case split_space cs of [] \<Rightarrow> [[c]] | f # fs \<Rightarrow> (c # f) # fs))"

definition numeral_token :: "string \<Rightarrow> bool" where
  "numeral_token t = (t \<noteq> [] \<and> list_all is_digit t)"

definition pixel_string :: "string \<Rightarrow> bool" where
  "pixel_string p =
    (length (split_space p) = 2304 \<and> list_all numeral_token (split_space p)
     \<and> list_all (\<lambda>t. dec_value t \<le> 255) (split_space p))"

section \<open>main.py: the file system, the console and the framework\<close>

text \<open>
  What a place of the file system holds: a directory, a checkpoint written by
  \<open>torch.save\<close> (a state dict), the CSV file (its rows), the directory of a TensorBoard run
  (the data written to it), or a text or image file.
\<close>

datatype event =
    AddImage string "rat list list list list"
  | AddScalar string pyfloat int
  | AddText string line
  | AddGraph "layer list"

datatype 'p node =
    Directory
  | StateDict 'p
  | Csv "row list"
  | Events "event list"
  | TextFile "line list"
  | ImageFile

definition is_dir :: "'p node \<Rightarrow> bool" where
  "is_dir n = (case n of Directory \<Rightarrow> True | Events evs \<Rightarrow> True | _ \<Rightarrow> False)"

text \<open>
  Paths. The system walks a path component by component from the root: an empty
  component and \<open>.\<close> stay in place, \<open>..\<close> goes to the parent (the root is its own parent), a
  name goes down. \<open>resolve\<close> gives the names from the root to the place a path reaches, so
  two spellings of one place are one key. This is the walk over a tree without symbolic
  links in which the directories named on the way exist. A relative path starts at the
  working directory (\<open>abspath\<close>).
\<close>

fun components :: "string \<Rightarrow> string list" where
  "components [] = [[]]"
| "components (c # cs) =
    (if c = CHR ''/'' then [] # components cs
     else (case components cs of [] \<Rightarrow> [[c]] | f # fs \<Rightarrow> (c # f) # fs))"

definition walk :: "string list \<Rightarrow> string \<Rightarrow> string list" where
  "walk place c =
    (if c = [] \<or> c = ''.'' then place else if c = ''..'' then butlast place else place @ [c])"

definition resolve :: "string \<Rightarrow> string list" where
  "resolve path = foldl walk [] (components path)"

definition abspath :: "string \<Rightarrow> string \<Rightarrow> string" where
  "abspath dir path = (if take 1 path = ''/'' then path else dir @ ''/'' @ path)"

text \<open>\<open>below place q\<close>: the place \<open>q\<close> is \<open>place\<close> or lies in the tree under it.\<close>

definition below :: "string list \<Rightarrow> string list \<Rightarrow> bool" where
  "below place q = (take (length place) q = place)"

text \<open>
  The state main works on: what the places of the file system hold, and the lines printed
  so far. The parents of a place are not tracked: a file can be written where no
  directory was made.
\<close>

record 'p world =
  files :: "string list \<rightharpoonup> 'p node"
  stdout :: "line list"

text \<open>A statement: it returns a value or raises, and leaves a state either way.\<close>

type_synonym ('p, 'a) io = "'p world \<Rightarrow> (error + 'a) \<times> 'p world"

definition print :: "line \<Rightarrow> 'p world \<Rightarrow> 'p world" where
  "print text w = w\<lparr>stdout := stdout w @ [text]\<rparr>"

definition path_exists :: "'p world \<Rightarrow> string \<Rightarrow> bool" where
  "path_exists w path = (files w (resolve path) \<noteq> None)"

text \<open>\<open>os.mkdir\<close> raises on a path that exists.\<close>

definition mkdir :: "string \<Rightarrow> ('p, unit) io" where
  "mkdir path w =
    (if path_exists w path then (Inl FileExistsError, w)
     else (Inr (), w\<lparr>files := (files w)(resolve path \<mapsto> Directory)\<rparr>))"

text \<open>Writing a file (\<open>open(path, "w")\<close>, \<open>torch.save\<close>): a directory cannot be written.\<close>

definition write_file :: "string \<Rightarrow> 'p node \<Rightarrow> ('p, unit) io" where
  "write_file path n w =
    (if (case files w (resolve path) of None \<Rightarrow> False | Some d \<Rightarrow> is_dir d)
     then (Inl IsADirectoryError, w)
     else (Inr (), w\<lparr>files := (files w)(resolve path \<mapsto> n)\<rparr>))"

text \<open>
  \<open>shutil.rmtree\<close>: the directory and everything below it go; a missing path and a path
  that is no directory raise.
\<close>

definition rmtree :: "string \<Rightarrow> ('p, unit) io" where
  "rmtree path w =
    (case files w (resolve path) of
       None \<Rightarrow> (Inl FileNotFoundError, w)
     | Some n \<Rightarrow>
        if is_dir n
        then (Inr (), w\<lparr>files := (\<lambda>q. if below (resolve path) q then None else files w q)\<rparr>)
        else (Inl NotADirectoryError, w))"

text \<open>\<open>os.remove\<close>: a file goes; a missing path and a directory raise.\<close>

definition remove :: "string \<Rightarrow> ('p, unit) io" where
  "remove path w =
    (case files w (resolve path) of
       None \<Rightarrow> (Inl FileNotFoundError, w)
     | Some n \<Rightarrow>
        if is_dir n then (Inl IsADirectoryError, w)
        else (Inr (), w\<lparr>files := (files w)(resolve path := None)\<rparr>))"

text \<open>
  \<open>os.rename\<close>: the source and everything below it move to the destination. A missing
  source raises, and so do a destination inside the source and a destination of the other
  kind. A file replaces a file. A directory at the destination is taken to have content,
  which raises (an empty one would be replaced); main removes the destination first.
\<close>

definition rename :: "string \<Rightarrow> string \<Rightarrow> ('p, unit) io" where
  "rename src dst w =
    (let s = resolve src; d = resolve dst;
         moved = w\<lparr>files := (\<lambda>q. if below d q then files w (s @ drop (length d) q)
                                  else if below s q then None else files w q)\<rparr>
     in
     case files w s of
       None \<Rightarrow> (Inl FileNotFoundError, w)
     | Some n \<Rightarrow>
        if s = d then (Inr (), w)
        else if below s d then (Inl OSError, w)
        else
          (case files w d of
             None \<Rightarrow> (Inr (), moved)
           | Some m \<Rightarrow>
              if is_dir m then (Inl (if is_dir n then OSError else IsADirectoryError), w)
              else if is_dir n then (Inl NotADirectoryError, w)
              else (Inr (), moved)))"

definition read_csv :: "string \<Rightarrow> 'p world \<Rightarrow> error + row list" where
  "read_csv path w =
    (case files w (resolve path) of
       None \<Rightarrow> Inl FileNotFoundError
     | Some (Csv rows) \<Rightarrow> Inr rows
     | Some _ \<Rightarrow> Inl ValueError)"

definition torch_load :: "string \<Rightarrow> 'p world \<Rightarrow> error + 'p" where
  "torch_load path w =
    (case files w (resolve path) of
       None \<Rightarrow> Inl FileNotFoundError
     | Some (StateDict sd) \<Rightarrow> Inr sd
     | Some _ \<Rightarrow> Inl RuntimeError)"

definition torch_save :: "'p \<Rightarrow> string \<Rightarrow> ('p, unit) io" where
  "torch_save sd path w = write_file path (StateDict sd) w"

text \<open>
  \<open>SummaryWriter(path)\<close> creates the run directory unless it is there; the writer is known
  by its path, and what it is given is added to the data of the directory.
\<close>

definition SummaryWriter :: "string \<Rightarrow> string \<Rightarrow> ('p, string) io" where
  "SummaryWriter dir path w =
    (let writer = abspath dir path in
     case files w (resolve writer) of
       None \<Rightarrow> (Inr writer, w\<lparr>files := (files w)(resolve writer \<mapsto> Events [])\<rparr>)
     | Some (Events evs) \<Rightarrow> (Inr writer, w)
     | Some Directory \<Rightarrow> (Inr writer, w\<lparr>files := (files w)(resolve writer \<mapsto> Events [])\<rparr>)
     | Some _ \<Rightarrow> (Inl FileExistsError, w))"

definition writer_add :: "string \<Rightarrow> event \<Rightarrow> 'p world \<Rightarrow> 'p world" where
  "writer_add writer ev w =
    (case files w (resolve writer) of
       Some (Events evs) \<Rightarrow> w\<lparr>files := (files w)(resolve writer \<mapsto> Events (evs @ [ev]))\<rparr>
     | _ \<Rightarrow> w)"

text \<open>The parsed command line, the global \<open>a\<close> of the script.\<close>

record args =
  a_name :: string
  a_epoch :: int
  a_batch :: int
  a_load :: bool
  a_min :: rat
  a_max :: rat
  a_rot :: rat

text \<open>
  What main takes from its surroundings and from the framework: the working directory,
  CUDA, the initial parameter values of a layer stack, \<open>load_state_dict\<close> (which fails on a
  state dict of another structure), one optimisation step (the updated network and the
  loss), the prediction for a batch of images, the order a shuffling dataloader draws, the
  application of a transformation, whether Graphviz can render, the time a test took, the
  date, and the global \<open>a\<close> (absent unless main.py runs as a script).
\<close>

record 'p framework =
  cwd :: string
  cuda_is_available :: bool
  cuda_version :: string
  init_params :: "layer list \<Rightarrow> 'p"
  load_state_dict :: "'p NeuralNetwork \<Rightarrow> 'p \<Rightarrow> error + 'p NeuralNetwork"
  optimize :: "'p NeuralNetwork \<Rightarrow> rat list list list batch \<Rightarrow> 'p NeuralNetwork \<times> rat"
  predict :: "'p NeuralNetwork \<Rightarrow> rat list list list list \<Rightarrow> int list"
  shuffle :: "nat list \<Rightarrow> nat list"
  apply_transform :: "transform list \<Rightarrow> rat list list list \<Rightarrow> rat list list list"
  graphviz_installed :: bool
  elapsed_ns :: int
  now :: string
  script_args :: "args option"

section \<open>main.py: the dataloader\<close>

text \<open>
  \<open>DataLoader(dataset, batch_size=batch, shuffle=True)\<close> rejects a batch size that is not
  positive. One iteration reads the examples in the order the framework draws and yields
  them in batches of \<open>batch_size\<close>, the last one shorter when the size does not divide.
\<close>

record DataLoader =
  dataset :: FaceDataset
  batch_size :: nat

definition DataLoader_init :: "FaceDataset \<Rightarrow> int \<Rightarrow> error + DataLoader" where
  "DataLoader_init ds batch =
    (if batch \<le> 0 then Inl ValueError else Inr \<lparr>dataset = ds, batch_size = nat batch\<rparr>)"

function chunks :: "nat \<Rightarrow> 'a list \<Rightarrow> 'a list list" where
  "chunks n xs = (if n = 0 \<or> xs = [] then [] else take n xs # chunks n (drop n xs))"
  by pat_completeness auto
termination
  by (relation "measure (\<lambda>(n, xs). length xs)") auto

declare chunks.simps [simp del]

fun getitems ::
  "'p framework \<Rightarrow> FaceDataset \<Rightarrow> nat list \<Rightarrow> error + (rat list list list \<times> int) list" where
  "getitems fw ds [] = Inr []"
| "getitems fw ds (i # is) =
    (case FaceDataset_getitem (apply_transform fw) ds (int i) of
       Inl e \<Rightarrow> Inl e
     | Inr x \<Rightarrow> (case getitems fw ds is of Inl e \<Rightarrow> Inl e | Inr xs \<Rightarrow> Inr (x # xs)))"

definition DataLoader_iter :: "'p framework \<Rightarrow> DataLoader \<Rightarrow> error + rat list list list batch list" where
  "DataLoader_iter fw dl =
    (case getitems fw (dataset dl) (shuffle fw [0..<FaceDataset_len (dataset dl)]) of
       Inl e \<Rightarrow> Inl e
     | Inr xs \<Rightarrow> Inr (map (\<lambda>c. (map fst c, map snd c)) (chunks (batch_size dl) xs)))"

text \<open>\<open>data_image\<close>: the images of the first batch of a new iteration go to the writer.\<close>

definition data_image :: "'p framework \<Rightarrow> DataLoader \<Rightarrow> string \<Rightarrow> string \<Rightarrow> ('p, unit) io" where
  "data_image fw dataloader writer title w =
    (case DataLoader_iter fw dataloader of
       Inl e \<Rightarrow> (Inl e, w)
     | Inr [] \<Rightarrow> (Inl StopIteration, w)
     | Inr (b # bs) \<Rightarrow> (Inr (), writer_add writer (AddImage title (fst b)) w))"

section \<open>main.py: one training attempt\<close>

definition DataLoader_len :: "DataLoader \<Rightarrow> nat" where
  "DataLoader_len dl = (FaceDataset_len (dataset dl) + batch_size dl - 1) div batch_size dl"

text \<open>The path \<open>f"{os.getcwd()}/Models/{name}.pt"\<close> of the checkpoint.\<close>

definition model_path :: "string \<Rightarrow> string \<Rightarrow> string" where
  "model_path dir name = dir @ ''/Models/'' @ name @ ''.pt''"

text \<open>
  Lines 272 to 287: the network to test. \<open>ctor\<close> is the result of the call \<open>NeuralNetwork()\<close>;
  main itself is \<open>main_with\<close> at \<open>NeuralNetwork_init\<close>. The bare \<open>except\<close> catches whatever the
  three statements of the \<open>try\<close> raise. The result is the network and \<open>no_model\<close>.
\<close>

definition load_failed :: line where
  "load_failed =
    [Txt ''Model to load has different structure than '', Quoted ''model_builder'',
     Txt ''.py, cannot load, building new model.'']"

definition main_load ::
  "(error + 'p NeuralNetwork) \<Rightarrow> 'p framework \<Rightarrow> string \<Rightarrow> bool
    \<Rightarrow> ('p, 'p NeuralNetwork \<times> bool) io" where
  "main_load ctor fw name load w =
    (case
       (if load then
          (if \<not> path_exists w (model_path (cwd fw) name)
           then (None,
                 print [Txt ''Model '', Quoted (name @ ''.pt''),
                        Txt '' does not exist to load, will build new model instead.''] w)
           else
            (let w1 = print [Txt ''Loading '', Quoted name, Txt ''...''] w in
             case ctor of
               Inl e \<Rightarrow> (None, print load_failed w1)
             | Inr fresh \<Rightarrow>
                (case torch_load (model_path (cwd fw) name) w1 of
                   Inl e \<Rightarrow> (None, print load_failed w1)
                 | Inr sd \<Rightarrow>
                    (case load_state_dict fw fresh sd of
                       Inl e \<Rightarrow> (None, print load_failed w1)
                     | Inr m \<Rightarrow> (Some m, print [Txt ''Loaded '', Quoted name, Txt ''.''] w1)))))
        else (None, w))
     of
       (Some m, w2) \<Rightarrow> (Inr (m, False), w2)
     | (None, w2) \<Rightarrow>
        (case ctor of Inl e \<Rightarrow> (Inl e, w2) | Inr m \<Rightarrow> (Inr (m, True), w2)))"

text \<open>Lines 288 to 303: training, skipped for a loaded network. The progress bars of tqdm
  go to the error stream, which is not modelled.\<close>

definition train_epoch ::
  "'p framework \<Rightarrow> 'p NeuralNetwork \<Rightarrow> rat list list list batch list \<Rightarrow> 'p NeuralNetwork \<times> rat" where
  "train_epoch fw model batches =
    fold (\<lambda>b (m, total_loss). case optimize fw m b of (m', x) \<Rightarrow> (m', total_loss + x))
      batches (model, 0)"

fun train_epochs ::
  "'p framework \<Rightarrow> DataLoader \<Rightarrow> string \<Rightarrow> nat list \<Rightarrow> 'p NeuralNetwork \<Rightarrow> rat
    \<Rightarrow> ('p, 'p NeuralNetwork \<times> rat) io" where
  "train_epochs fw dataloader writer [] model last_loss w = (Inr (model, last_loss), w)"
| "train_epochs fw dataloader writer (epoch # es) model last_loss w =
    (case DataLoader_iter fw dataloader of
       Inl e \<Rightarrow> (Inl e, w)
     | Inr batches \<Rightarrow>
        (case train_epoch fw model batches of
           (m, total_loss) \<Rightarrow>
            if DataLoader_len dataloader = 0 then (Inl ZeroDivisionError, w)
            else train_epochs fw dataloader writer es m total_loss
                   (writer_add writer
                      (AddScalar ''Training Loss''
                         (Finite (total_loss / of_nat (DataLoader_len dataloader))) (int epoch)) w)))"

definition main_train ::
  "'p framework \<Rightarrow> string \<Rightarrow> int \<Rightarrow> int \<Rightarrow> FaceDataset \<Rightarrow> string \<Rightarrow> 'p NeuralNetwork \<Rightarrow> bool
    \<Rightarrow> ('p, 'p NeuralNetwork) io" where
  "main_train fw name epochs batch training_data writer model no_model w =
    (case DataLoader_init training_data batch of
       Inl e \<Rightarrow> (Inl e, w)
     | Inr dataloader \<Rightarrow>
        (case data_image fw dataloader writer ''Training Sample'' w of
           (Inl e, w1) \<Rightarrow> (Inl e, w1)
         | (Inr u, w1) \<Rightarrow>
            if no_model \<and> epochs > 0 then
              (case train_epochs fw dataloader writer [0..<nat epochs] model 0
                      (print [Txt ''Training '', Quoted name, Txt '' for '', IntV epochs,
                              Txt '' epochs with batch size '', IntV batch, Txt ''...''] w1) of
                 (Inl e, w2) \<Rightarrow> (Inl e, w2)
               | (Inr (m, last_loss), w2) \<Rightarrow>
                  if DataLoader_len dataloader = 0 then (Inl ZeroDivisionError, w2)
                  else (Inr m,
                        print [Txt ''Training '', Quoted name, Txt '' complete - Final loss = '',
                               Float4 (Finite (last_loss / of_nat (DataLoader_len dataloader)))] w2))
            else (Inr model, w1)))"

text \<open>Lines 304 to 316: the test of the network on the testing data.\<close>

definition main_test ::
  "'p framework \<Rightarrow> int \<Rightarrow> FaceDataset \<Rightarrow> int \<Rightarrow> string \<Rightarrow> 'p NeuralNetwork
    \<Rightarrow> ('p, DataLoader \<times> pyfloat) io" where
  "main_test fw batch testing_data testing_total writer model w =
    (case DataLoader_init testing_data batch of
       Inl e \<Rightarrow> (Inl e, w)
     | Inr dataloader \<Rightarrow>
        (case data_image fw dataloader writer ''Testing Sample'' w of
           (Inl e, w1) \<Rightarrow> (Inl e, w1)
         | (Inr u, w1) \<Rightarrow>
            (case DataLoader_iter fw dataloader of
               Inl e \<Rightarrow> (Inl e, w1)
             | Inr batches \<Rightarrow>
                (case test (predict fw) model batch batches of
                   Inl e \<Rightarrow> (Inl e, w1)
                 | Inr accuracy \<Rightarrow>
                    if testing_total = 0 then (Inl ZeroDivisionError, w1)
                    else
                     (let inference_time =
                            Finite (of_int (elapsed_ns fw) / of_int testing_total / 1000000);
                          w2 = writer_add writer (AddText ''Accuracy'' [FloatV accuracy, Txt ''%'']) w1;
                          w3 = writer_add writer
                                 (AddText ''Average Inference Time'' [FloatV inference_time, Txt '' ms''])
                                 w2;
                          w4 = print [Summary (layers model)] w3;
                          w5 = print [Txt ''Accuracy = '', FloatV accuracy, Txt ''%''] w4;
                          w6 = print [Txt ''Average Inference Time: '', FloatV inference_time,
                                      Txt '' ms''] w5
                      in (Inr (dataloader, accuracy), w6))))))"

text \<open>
  Lines 317 to 339: the comparison with an existing checkpoint of the same name and the
  save. The result \<open>True\<close> says that the new network was saved and the attempt goes on,
  \<open>False\<close> that the attempt ended at \<open>continue\<close>. The bare \<open>except\<close> catches whatever the
  \<open>try\<close> raises, the removal of the run directory included, and the save follows it.
\<close>

definition save_model :: "string \<Rightarrow> string \<Rightarrow> 'p NeuralNetwork \<Rightarrow> ('p, bool) io" where
  "save_model dir name model w =
    (case torch_save (state_dict model) (model_path dir name) w of
       (Inl e, w1) \<Rightarrow> (Inl e, w1)
     | (Inr u, w1) \<Rightarrow> (Inr True, w1))"

definition compare_failed :: line where
  "compare_failed =
    [Txt ''Model to load has different structure '', Quoted ''model_builder'',
     Txt ''.py, cannot load, will save the new model.'']"

definition main_save ::
  "(error + 'p NeuralNetwork) \<Rightarrow> 'p framework \<Rightarrow> string \<Rightarrow> int \<Rightarrow> bool \<Rightarrow> DataLoader
    \<Rightarrow> 'p NeuralNetwork \<Rightarrow> pyfloat \<Rightarrow> ('p, bool) io" where
  "main_save ctor fw name batch load dataloader model accuracy w =
    (case (if \<not> path_exists w (cwd fw @ ''/Models'') then mkdir (cwd fw @ ''/Models'') w
           else (Inr (), w)) of
       (Inl e, w1) \<Rightarrow> (Inl e, w1)
     | (Inr u, w1) \<Rightarrow>
        if \<not> load \<and> path_exists w1 (model_path (cwd fw) name) then
          (let w2 = print [Txt ''Model '', Quoted (name @ ''.pt''),
                           Txt '' already exists, loading and checking if new model is better...''] w1
           in
           case ctor of
             Inl e \<Rightarrow> save_model (cwd fw) name model (print compare_failed w2)
           | Inr fresh \<Rightarrow>
              (case torch_load (model_path (cwd fw) name) w2 of
                 Inl e \<Rightarrow> save_model (cwd fw) name model (print compare_failed w2)
               | Inr sd \<Rightarrow>
                  (case load_state_dict fw fresh sd of
                     Inl e \<Rightarrow> save_model (cwd fw) name model (print compare_failed w2)
                   | Inr existing \<Rightarrow>
                      (case DataLoader_iter fw dataloader of
                         Inl e \<Rightarrow> save_model (cwd fw) name model (print compare_failed w2)
                       | Inr batches \<Rightarrow>
                          (case test (predict fw) existing batch batches of
                             Inl e \<Rightarrow> save_model (cwd fw) name model (print compare_failed w2)
                           | Inr existing_accuracy \<Rightarrow>
                              if float_ge existing_accuracy accuracy then
                                (case rmtree (cwd fw @ ''/runs/Current'')
                                        (print [Txt ''Existing '', Quoted (name @ ''.pt''),
                                                Txt '' has better accuracy score of '',
                                                FloatV existing_accuracy,
                                                Txt ''%, not saving new model.''] w2) of
                                   (Inl e, w3) \<Rightarrow>
                                     save_model (cwd fw) name model (print compare_failed w3)
                                 | (Inr u, w3) \<Rightarrow> (Inr False, w3))
                              else
                                save_model (cwd fw) name model
                                  (print [Txt ''Existing '', Quoted (name @ ''.pt''),
                                          Txt '' has worse accuracy score of '',
                                          FloatV existing_accuracy,
                                          Txt ''%, overwriting with new model.''] w2))))))
        else save_model (cwd fw) name model w1)"

text \<open>
  \<open>parameter_text_generator\<close>: it reads the global \<open>a\<close> and writes the parameter file of the
  name in \<open>a\<close>. main passes the set \<open>{accuracy}\<close>.
\<close>

definition parameter_text_generator :: "'p framework \<Rightarrow> pyfloat \<Rightarrow> ('p, unit) io" where
  "parameter_text_generator fw accuracy w =
    (case script_args fw of
       None \<Rightarrow> (Inl NameError, w)
     | Some a \<Rightarrow>
        write_file (cwd fw @ ''/ModelParameters/'' @ a_name a @ ''.txt'')
          (TextFile
            [[Txt ''Accuracy Rate & Device: {'', FloatV accuracy, Txt ''}''],
             [Txt ''Name of the model: '', Txt (a_name a)],
             [Txt ''Number of training epochs: '', IntV (a_epoch a)],
             [Txt ''Training and testing batch size: '', IntV (a_batch a)],
             [Txt ''Minimum rescaling size of training data: '', FloatV (Finite (a_min a))],
             [Txt ''Maximum rescaling size of training data: '', FloatV (Finite (a_max a))],
             [Txt ''Maximum rotation of training data: '', FloatV (Finite (a_rot a))],
             [Txt (now fw)],
             (if a_load a then [Nl, Txt '' Name of Model Loaded : '', BoolV (a_load a)]
              else [Txt ''Model is an original.''])])
          w)"

text \<open>
  Lines 346 to 353: the picture of the graph. \<open>render\<close> writes its source file and, with
  Graphviz, the picture beside it; the source file is then removed. The bare \<open>except\<close>
  drops whatever is raised on the way, with what was written until then left in place.
\<close>

definition main_graph :: "'p framework \<Rightarrow> string \<Rightarrow> 'p world \<Rightarrow> 'p world" where
  "main_graph fw name w =
    (case write_file (cwd fw @ ''/Graphs/'' @ name) (TextFile []) w of
       (Inl e, w1) \<Rightarrow> w1
     | (Inr u, w1) \<Rightarrow>
        if graphviz_installed fw then
          (case write_file (cwd fw @ ''/Graphs/'' @ name @ ''.png'') ImageFile w1 of
             (Inl e, w2) \<Rightarrow> w2
           | (Inr u, w2) \<Rightarrow> snd (remove (cwd fw @ ''/Graphs/'' @ name) w2))
        else w1)"

text \<open>Lines 340 to 363: the graph, the run data and the parameter file.\<close>

definition main_finish ::
  "'p framework \<Rightarrow> string \<Rightarrow> DataLoader \<Rightarrow> string \<Rightarrow> 'p NeuralNetwork \<Rightarrow> pyfloat
    \<Rightarrow> ('p, unit) io" where
  "main_finish fw name dataloader writer model accuracy w =
    (case DataLoader_iter fw dataloader of
       Inl e \<Rightarrow> (Inl e, w)
     | Inr [] \<Rightarrow> (Inl StopIteration, w)
     | Inr (b # bs) \<Rightarrow>
        (case (let w1 = writer_add writer (AddGraph (layers model)) w in
               if \<not> path_exists w1 (cwd fw @ ''/Graphs'') then mkdir (cwd fw @ ''/Graphs'') w1
               else (Inr (), w1)) of
           (Inl e, w2) \<Rightarrow> (Inl e, w2)
         | (Inr u, w2) \<Rightarrow>
            (let w3 = main_graph fw name w2 in
             case (if path_exists w3 (cwd fw @ ''/runs/'' @ name)
                   then rmtree (cwd fw @ ''/runs/'' @ name) w3
                   else (Inr (), w3)) of
               (Inl e, w4) \<Rightarrow> (Inl e, w4)
             | (Inr u, w4) \<Rightarrow>
                (case rename (cwd fw @ ''/runs/Current'') (cwd fw @ ''/runs/'' @ name) w4 of
                   (Inl e, w5) \<Rightarrow> (Inl e, w5)
                 | (Inr u, w5) \<Rightarrow>
                    (case (if \<not> path_exists w5 (cwd fw @ ''/ModelParameters'')
                           then mkdir (cwd fw @ ''/ModelParameters'') w5
                           else (Inr (), w5)) of
                       (Inl e, w6) \<Rightarrow> (Inl e, w6)
                     | (Inr u, w6) \<Rightarrow> parameter_text_generator fw accuracy w6)))))"

text \<open>The body of the loop over the attempts, lines 269 to 363.\<close>

definition main_attempt ::
  "(error + 'p NeuralNetwork) \<Rightarrow> 'p framework \<Rightarrow> string \<Rightarrow> int \<Rightarrow> int \<Rightarrow> bool
    \<Rightarrow> FaceDataset \<Rightarrow> FaceDataset \<Rightarrow> int \<Rightarrow> int \<Rightarrow> nat \<Rightarrow> ('p, unit) io" where
  "main_attempt ctor fw name epochs batch load training_data testing_data testing_total att
      attempt w =
    (case SummaryWriter (cwd fw) ''runs/Current''
            (if att > 1
             then print [Txt ''Training attempt '', IntV (int attempt + 1), Txt '' of '',
                         IntV att, Txt ''.''] w
             else w) of
       (Inl e, w1) \<Rightarrow> (Inl e, w1)
     | (Inr writer, w1) \<Rightarrow>
        (case main_load ctor fw name load w1 of
           (Inl e, w2) \<Rightarrow> (Inl e, w2)
         | (Inr (model, no_model), w2) \<Rightarrow>
            (case main_train fw name epochs batch training_data writer model no_model w2 of
               (Inl e, w3) \<Rightarrow> (Inl e, w3)
             | (Inr trained, w3) \<Rightarrow>
                (case main_test fw batch testing_data testing_total writer trained w3 of
                   (Inl e, w4) \<Rightarrow> (Inl e, w4)
                 | (Inr (dataloader, accuracy), w4) \<Rightarrow>
                    (case main_save ctor fw name batch load dataloader trained accuracy w4 of
                       (Inl e, w5) \<Rightarrow> (Inl e, w5)
                     | (Inr saved, w5) \<Rightarrow>
                        if saved then main_finish fw name dataloader writer trained accuracy w5
                        else (Inr (), w5))))))"

section \<open>main.py: main\<close>

text \<open>
  A \<open>for\<close> loop over a list of indices: the body runs on each index in turn, and an
  exception ends the loop.
\<close>

fun for_loop :: "(nat \<Rightarrow> ('p, unit) io) \<Rightarrow> nat list \<Rightarrow> ('p, unit) io" where
  "for_loop body [] w = (Inr (), w)"
| "for_loop body (i # is) w =
    (case body i w of
       (Inl e, w1) \<Rightarrow> (Inl e, w1)
     | (Inr u, w1) \<Rightarrow> for_loop body is w1)"

text \<open>Lines 266 and 267, and the range of the loop of line 268.\<close>

definition attempts :: "bool \<Rightarrow> int \<Rightarrow> int" where
  "attempts load att = (if load \<or> att < 1 then 1 else att)"

definition attempt_range :: "bool \<Rightarrow> int \<Rightarrow> nat list" where
  "attempt_range load att = [0..<nat (attempts load att)]"

text \<open>
  Lines 252 to 265: the banner, the guard on the name, and the data. The result is \<open>None\<close>
  when main returns at the guard, or the two datasets and the size of the testing data.
\<close>

definition main_setup ::
  "'p framework \<Rightarrow> string \<Rightarrow> rat \<Rightarrow> rat \<Rightarrow> rat
    \<Rightarrow> ('p, (FaceDataset \<times> FaceDataset \<times> int) option) io" where
  "main_setup fw name mini maxi rot w =
    (let w1 = print [Txt ''Face Recognition Deep Learning'', Nl, Txt ''Run '',
                     Quoted ''tensorboard --logdir=runs'', Txt '' in '', Quoted (cwd fw),
                     Txt '' to see data.''] w
     in
     if name = ''Current'' then
       (Inr None,
        print [Txt ''Cannot name the model '', Quoted ''Current'',
               Txt '' as that name is used for the current TensorBoard run.''] w1)
     else
      (let w2 = print (if cuda_is_available fw
                       then [Txt ''Running on GPU with CUDA '', Txt (cuda_version fw), Txt ''.'']
                       else [Txt ''Running on CPU.'']) w1;
           w3 = print [Txt ''Loading data...''] w2
       in
       case read_csv (cwd fw @ ''/Data.csv'') w3 of
         Inl e \<Rightarrow> (Inl e, w3)
       | Inr df \<Rightarrow>
          (case prepare_data (filter (\<lambda>r. Usage r = ''Training'') df) of
             Inl e \<Rightarrow> (Inl e, w3)
           | Inr (train_images, train_labels) \<Rightarrow>
              (case prepare_data (filter (\<lambda>r. Usage r \<noteq> ''Training'') df) of
                 Inl e \<Rightarrow> (Inl e, w3)
               | Inr (test_images, test_labels) \<Rightarrow>
                  (case FaceDataset_init train_images train_labels mini maxi rot of
                     Inl e \<Rightarrow> (Inl e, w3)
                   | Inr training_data \<Rightarrow>
                      (case FaceDataset_init test_images test_labels 1 1 0 of
                         Inl e \<Rightarrow> (Inl e, w3)
                       | Inr testing_data \<Rightarrow>
                          (case dataset_details ''Training'' train_labels (stdout w3) of
                             (Inl e, out) \<Rightarrow> (Inl e, w3\<lparr>stdout := out\<rparr>)
                           | (Inr training_total, out) \<Rightarrow>
                              (case dataset_details ''Testing'' test_labels out of
                                 (Inl e, out2) \<Rightarrow> (Inl e, w3\<lparr>stdout := out2\<rparr>)
                               | (Inr testing_total, out2) \<Rightarrow>
                                  (Inr (Some (training_data, testing_data, testing_total)),
                                   w3\<lparr>stdout := out2\<rparr>)))))))))"

definition main_with ::
  "(error + 'p NeuralNetwork) \<Rightarrow> 'p framework \<Rightarrow> string \<Rightarrow> int \<Rightarrow> int \<Rightarrow> bool
    \<Rightarrow> rat \<Rightarrow> rat \<Rightarrow> rat \<Rightarrow> int \<Rightarrow> ('p, unit) io" where
  "main_with ctor fw name epochs batch load mini maxi rot att w =
    (case main_setup fw name mini maxi rot w of
       (Inl e, w1) \<Rightarrow> (Inl e, w1)
     | (Inr None, w1) \<Rightarrow> (Inr (), w1)
     | (Inr (Some (training_data, testing_data, testing_total)), w1) \<Rightarrow>
        for_loop
          (main_attempt ctor fw name epochs batch load training_data testing_data testing_total
             (attempts load att))
          (attempt_range load att) w1)"

definition main ::
  "'p framework \<Rightarrow> string \<Rightarrow> int \<Rightarrow> int \<Rightarrow> bool \<Rightarrow> rat \<Rightarrow> rat \<Rightarrow> rat \<Rightarrow> int \<Rightarrow> ('p, unit) io" where
  "main fw name epochs batch load mini maxi rot att =
    main_with (NeuralNetwork_init (cuda_is_available fw) (init_params fw)) fw name epochs batch
      load mini maxi rot att"

section \<open>Examples\<close>

text \<open>A string of 2304 space-separated pixel values: 2304 times the value 7.\<close>

definition seven_pixels :: string where
  "seven_pixels = concat (replicate 2303 ''7 '') @ ''7''"

text \<open>
  A run of main: a framework without CUDA, and a working directory \<open>/home/user\<close> that
  holds the data (one training and one testing image of the class 1) and a checkpoint of
  the name \<open>M\<close>. \<open>example_report\<close> is what main prints on them before the loop over the
  attempts.
\<close>

definition example_framework :: "nat framework" where
  "example_framework =
    \<lparr>cwd = ''/home/user'', cuda_is_available = False, cuda_version = ''None'',
     init_params = (\<lambda>ls. 0),
     load_state_dict = (\<lambda>m sd. Inr (m\<lparr>state_dict := sd\<rparr>)),
     optimize = (\<lambda>m b. (m\<lparr>state_dict := 1\<rparr>, 1 / 2)),
     predict = (\<lambda>m imgs. map (\<lambda>i. int (state_dict m)) imgs),
     shuffle = (\<lambda>js. js),
     apply_transform = (\<lambda>t img. img),
     graphviz_installed = True,
     elapsed_ns = 1000,
     now = ''2022-12-01'',
     script_args = Some \<lparr>a_name = ''M'', a_epoch = 1, a_batch = 1, a_load = False,
                         a_min = 1, a_max = 1, a_rot = 0\<rparr>\<rparr>"

definition example_rows :: "row list" where
  "example_rows =
    [\<lparr>Usage = ''Training'', emotion = 1, pixels = seven_pixels\<rparr>,
     \<lparr>Usage = ''PublicTest'', emotion = 1, pixels = seven_pixels\<rparr>]"

definition example_world :: "nat world" where
  "example_world =
    \<lparr>files = [[''home'', ''user'', ''Data.csv''] \<mapsto> Csv example_rows,
              [''home'', ''user'', ''Models''] \<mapsto> Directory,
              [''home'', ''user'', ''Models'', ''M.pt''] \<mapsto> StateDict 1],
     stdout = []\<rparr>"

definition example_report :: "line list" where
  "example_report =
    [[Txt ''Face Recognition Deep Learning'', Nl, Txt ''Run '',
      Quoted ''tensorboard --logdir=runs'', Txt '' in '', Quoted ''/home/user'',
      Txt '' to see data.''],
     [Txt ''Running on CPU.''],
     [Txt ''Loading data...''],
     details_line ''Training'' 1 [0, 1, 0, 0, 0, 0, 0]
       [Finite 0, Finite 100, Finite 0, Finite 0, Finite 0, Finite 0, Finite 0],
     details_line ''Testing'' 1 [0, 1, 0, 0, 0, 0, 0]
       [Finite 0, Finite 100, Finite 0, Finite 0, Finite 0, Finite 0, Finite 0]]"

section \<open>Properties of model_builder.py\<close>

lemma lower_char_letter:
  assumes "97 \<le> (of_char d :: nat)" "(of_char d :: nat) \<le> 122"
  shows "lower_char c = d \<longleftrightarrow> (c = d \<or> c = upper_char d \<or> d = upper_char c)"
proof -
  have d256: "(of_char d :: nat) < 256" by simp
  have c256: "(of_char c :: nat) < 256" by simp
  have ud: "upper_char d = char_of ((of_char d :: nat) - 32)"
    using assms by (simp add: upper_char_def Let_def)
  show ?thesis
  proof (cases "65 \<le> (of_char c :: nat) \<and> (of_char c :: nat) \<le> 90")
    case True
    have uc: "upper_char c = c" using True by (simp add: upper_char_def Let_def)
    have lc: "lower_char c = char_of ((of_char c :: nat) + 32)"
      using True by (simp add: lower_char_def Let_def)
    have "c \<noteq> d" using True assms by auto
    moreover have "(char_of ((of_char c :: nat) + 32) = d) \<longleftrightarrow> (c = char_of ((of_char d :: nat) - 32))"
    proof
      assume "char_of ((of_char c :: nat) + 32) = d"
      then have "(of_char d :: nat) = (of_char c + 32) mod 256" by auto
      then have "(of_char d :: nat) = of_char c + 32" using True by simp
      then have "(of_char d :: nat) - 32 = of_char c" by simp
      then show "c = char_of ((of_char d :: nat) - 32)" by simp
    next
      assume "c = char_of ((of_char d :: nat) - 32)"
      then have "(of_char c :: nat) = (of_char d - 32) mod 256" by auto
      then have "(of_char c :: nat) = of_char d - 32" using assms by simp
      then have "(of_char c :: nat) + 32 = of_char d" using assms by simp
      then show "char_of ((of_char c :: nat) + 32) = d" by simp
    qed
    ultimately show ?thesis using uc lc ud by auto
  next
    case False
    have lc: "lower_char c = c" using False by (auto simp add: lower_char_def Let_def)
    have "c \<noteq> upper_char d"
    proof
      assume "c = upper_char d"
      then have "(of_char c :: nat) = (of_char d - 32) mod 256" using ud by auto
      then have "(of_char c :: nat) = of_char d - 32" using assms by simp
      then show False using False assms by auto
    qed
    moreover have "d = upper_char c \<Longrightarrow> c = d"
    proof (cases "97 \<le> (of_char c :: nat) \<and> (of_char c :: nat) \<le> 122")
      case True
      assume "d = upper_char c"
      then have "d = char_of ((of_char c :: nat) - 32)" using True by (simp add: upper_char_def Let_def)
      then have "(of_char d :: nat) = (of_char c - 32) mod 256" by auto
      then have "(of_char d :: nat) = of_char c - 32" using True by auto
      then show ?thesis using True assms by auto
    next
      case False
      assume "d = upper_char c"
      then show ?thesis using False by (auto simp add: upper_char_def Let_def)
    qed
    ultimately show ?thesis using lc by auto
  qed
qed

lemma lower_same_up_to_case:
  "list_all lower_letter t \<Longrightarrow> lower s = t \<longleftrightarrow> same_up_to_case s t"
proof (induction s arbitrary: t)
  case Nil
  then show ?case by (cases t) (simp_all add: lower_def)
next
  case (Cons c cs)
  show ?case
  proof (cases t)
    case Nil
    then show ?thesis by (simp add: lower_def)
  next
    case t: (Cons d ds)
    have "lower cs = ds \<longleftrightarrow> same_up_to_case cs ds"
      using Cons.IH [of ds] Cons.prems t by simp
    moreover have "lower_char c = d \<longleftrightarrow> (c = d \<or> c = upper_char d \<or> d = upper_char c)"
      using lower_char_letter [of d c] Cons.prems t by (simp add: lower_letter_def)
    ultimately show ?thesis using t by (simp add: lower_def)
  qed
qed

text \<open>
  C4: \<open>define_layers\<close> returns a network for exactly three names: a name that agrees up
  to case with \<open>simple\<close>, \<open>expanded\<close> or \<open>resnet\<close> gives the network of that name, and
  every other name raises \<open>ValueError\<close>.
\<close>

theorem define_layers_three_names:
  "define_layers name =
    (if same_up_to_case name ''simple'' then Inr simple_network
     else if same_up_to_case name ''expanded'' then Inr expanded_network
     else if same_up_to_case name ''resnet'' then Inr resnet_network
     else Inl ValueError)"
proof -
  have s: "lower name = ''simple'' \<longleftrightarrow> same_up_to_case name ''simple''"
    by (rule lower_same_up_to_case) (simp add: lower_letter_def)
  have e: "lower name = ''expanded'' \<longleftrightarrow> same_up_to_case name ''expanded''"
    by (rule lower_same_up_to_case) (simp add: lower_letter_def)
  have r: "lower name = ''resnet'' \<longleftrightarrow> same_up_to_case name ''resnet''"
    by (rule lower_same_up_to_case) (simp add: lower_letter_def)
  show ?thesis
    unfolding define_layers_def Let_def s e r by (rule refl)
qed

theorem define_layers_three_names_witness:
  "define_layers ''ResNet'' = Inr resnet_network \<and> define_layers ''vgg'' = Inl ValueError"
proof -
  have a: "\<not> same_up_to_case ''ResNet'' ''simple''" "\<not> same_up_to_case ''ResNet'' ''expanded''"
    "same_up_to_case ''ResNet'' ''resnet''"
    by code_simp+
  have b: "\<not> same_up_to_case ''vgg'' ''simple''" "\<not> same_up_to_case ''vgg'' ''expanded''"
    "\<not> same_up_to_case ''vgg'' ''resnet''"
    by code_simp+
  show ?thesis
    using define_layers_three_names [of "''ResNet''"] define_layers_three_names [of "''vgg''"]
    by (simp only: a b if_True if_False simp_thms)
qed

section \<open>Properties of the network constructor\<close>

text \<open>
  C3: constructing the network. The call \<open>model_builder.define_layers()\<close> in
  \<open>NeuralNetwork.__init__\<close> passes no argument to a function whose parameter \<open>name\<close> has no
  default, so the constructor raises \<open>TypeError\<close> whatever the device and the initial
  parameter values are; no layer stack is obtained.
\<close>

theorem NeuralNetwork_init_raises:
  "NeuralNetwork_init has_cuda initial = Inl TypeError"
  by (simp add: NeuralNetwork_init_def call1_def)

section \<open>Properties of dataset_details\<close>

lemma sum_list_incr:
  "k < length xs \<Longrightarrow> sum_list (xs[k := xs ! k + 1]) = sum_list xs + (1::int)"
  by (induction xs arbitrary: k) (auto split: nat.splits)

lemma py_incr_ok:
  assumes "0 \<le> l" "l < int (length counts)"
  shows "\<exists>c'. py_incr counts l = Inr c' \<and> length c' = length counts \<and> sum_list c' = sum_list counts + 1"
proof -
  have n: "nat l < length counts" using assms by simp
  have "sum_list (counts[nat l := counts ! nat l + 1]) = sum_list counts + 1"
    using n by (rule sum_list_incr)
  then show ?thesis using assms by (simp add: py_incr_def Let_def)
qed

lemma count_labels_ok:
  "\<forall>l \<in> set lbls. 0 \<le> l \<and> l < int (length counts) \<Longrightarrow>
   \<exists>c'. count_labels counts lbls = Inr c' \<and> length c' = length counts
        \<and> sum_list c' = sum_list counts + int (length lbls)"
proof (induction lbls arbitrary: counts)
  case Nil
  then show ?case by simp
next
  case (Cons l ls)
  obtain c1 where c1: "py_incr counts l = Inr c1" "length c1 = length counts"
     "sum_list c1 = sum_list counts + 1"
    using py_incr_ok [of l counts] Cons.prems by auto
  obtain c' where "count_labels c1 ls = Inr c'" "length c' = length c1"
     "sum_list c' = sum_list c1 + int (length ls)"
    using Cons.IH [of c1] Cons.prems c1 by auto
  then show ?case using c1 by simp
qed

lemma percent_ok:
  assumes "tot \<noteq> 0" "0 \<le> k" "k < int (length counts)"
  shows "\<exists>p. percent counts tot k = Inr p"
  using assms by (simp add: percent_def py_index_def py_truediv_def Let_def)

lemma percents_ok:
  "tot \<noteq> 0 \<Longrightarrow> \<forall>k \<in> set ks. 0 \<le> k \<and> k < int (length counts) \<Longrightarrow>
   \<exists>ps. percents counts tot ks = Inr ps"
proof (induction ks)
  case Nil
  then show ?case by simp
next
  case (Cons k ks)
  obtain p where "percent counts tot k = Inr p" using percent_ok [of tot k counts] Cons.prems by auto
  moreover obtain ps where "percents counts tot ks = Inr ps" using Cons by auto
  ultimately show ?case by simp
qed

lemma dataset_details_nonempty:
  assumes "lbls \<noteq> []" "\<forall>l \<in> set lbls. 0 \<le> l \<and> l \<le> 6"
  shows "\<exists>ln. dataset_details title lbls out = (Inr (int (length lbls)), out @ [ln])"
proof -
  have r: "\<forall>l \<in> set lbls. 0 \<le> l \<and> l < int (length [0, 0, 0, 0, 0, 0, 0 :: int])"
    using assms(2) by auto
  obtain c' where c: "count_labels [0, 0, 0, 0, 0, 0, 0] lbls = Inr c'" "length c' = 7"
    "sum_list c' = int (length lbls)"
    using count_labels_ok [OF r] by auto
  have nz: "sum_list c' \<noteq> 0" using c(3) assms(1) by simp
  obtain ps where "percents c' (sum_list c') [0, 1, 2, 3, 4, 5, 6] = Inr ps"
    using percents_ok [of "sum_list c'" "[0, 1, 2, 3, 4, 5, 6]" c'] nz c(2) by auto
  then show ?thesis using c by (simp add: dataset_details_def Let_def)
qed

text \<open>
  C7: \<open>dataset_details\<close> on a list of labels between 0 and 6. On a list that is not empty
  every index is in bounds and the total returned is the length of the list
  (\<open>dataset_details_nonempty\<close>). The empty list has all its elements in range as well, and
  there the total is 0 and the first percentage of the report, \<open>counts[0] / total * 100\<close>,
  raises \<open>ZeroDivisionError\<close>: nothing is printed and no total is returned.
\<close>

theorem dataset_details_empty_raises:
  "dataset_details title [] out = (Inl ZeroDivisionError, out)"
  by (simp add: dataset_details_def percent_def py_index_def py_truediv_def)

section \<open>Properties of test\<close>

lemma sum_list_full_batches:
  "\<forall>b \<in> set dataloader. length (snd b) = n \<Longrightarrow>
   sum_list (map (\<lambda>(image, label). length label) dataloader) = length dataloader * n"
  by (induction dataloader) (auto simp: case_prod_beta)

lemma test_full_batches:
  assumes "0 < batch" "dataloader \<noteq> []"
    "\<forall>b \<in> set dataloader. length (snd b) = nat batch"
  shows "test pr model batch dataloader
    = Inr (Finite (accuracy_percentage pr model dataloader))"
proof -
  have "sum_list (map (\<lambda>(image, label). length label) dataloader) = length dataloader * nat batch"
    using assms(3) by (rule sum_list_full_batches)
  then have "(of_nat (sum_list (map (\<lambda>(image, label). length label) dataloader)) :: rat)
     = of_int (int (length dataloader) * batch)"
    using assms(1) by simp
  moreover have "int (length dataloader) * batch \<noteq> 0" using assms by simp
  ultimately show ?thesis by (simp add: test_def accuracy_percentage_def Let_def)
qed

text \<open>
  C2: the accuracy \<open>test\<close> returns. The divisor is \<open>len(dataloader) * batch\<close>, the number of
  batches times the batch size, which is the number of test examples only when every batch
  is full (\<open>test_full_batches\<close>). With three examples in batches of two, all three predicted
  correctly, \<open>test\<close> returns 75 where the accuracy is 100.
\<close>

theorem test_short_last_batch:
  "test (\<lambda>m images. map (\<lambda>i. 0) images) () 2 [([1, 2 :: nat], [0, 0]), ([3], [0])]
     = Inr (Finite 75)
   \<and> accuracy_percentage (\<lambda>m images. map (\<lambda>i. 0) images) ()
        [([1, 2 :: nat], [0, 0]), ([3], [0])] = 100"
  by (simp add: test_def accuracy_percentage_def count_equal_def)

section \<open>Properties of FaceDataset\<close>

lemma FaceDataset_default:
  "FaceDataset_init imgs lbls 1 1 0 =
     Inr \<lparr>images = swapaxes_2_3 (swapaxes_1_3 imgs), labels = map word_of_int lbls, transform = None\<rparr>"
  by (simp add: FaceDataset_init_def)

lemma FaceDataset_init_example_plain: "FaceDataset_init [[[[1 / 2]]]] [3] 1 1 0 = Inr \<lparr>images = [[[[1 / 2]]]], labels = [3], transform = None\<rparr>"
  by (simp add: FaceDataset_init_def swapaxes_1_3_def swapaxes_2_3_def)

lemma FaceDataset_init_example_augmented: "FaceDataset_init [[[[1 / 2]]]] [3] (1/2) 1 10 = Inr \<lparr>images = [[[[1 / 2]]]], labels = [3], transform = Some [RandomResizedCrop 48 (1/2, 1), RandomRotation 10]\<rparr>"
  by (simp add: FaceDataset_init_def swapaxes_1_3_def swapaxes_2_3_def RandomRotation_init_def)

text \<open>
  C5: augmentation is optional and off by default. A dataset constructed with \<open>mini = 1\<close>,
  \<open>maxi = 1\<close> and \<open>rot = 0\<close> stores no transformation, and \<open>__getitem__\<close> at an index that is
  valid for the images and the labels returns the stored image as it is, with its label,
  whatever the framework's random transformations would do. For any arguments the
  constructor accepts, a transformation is stored exactly when the rescaling range is not
  (1, 1) or the rotation is not 0.
\<close>

theorem FaceDataset_augmentation_optional:
  "(\<exists>ds. FaceDataset_init imgs lbls 1 1 0 = Inr ds \<and> transform ds = None
      \<and> (\<forall>img l. py_index (images ds) idx = Inr img \<longrightarrow> py_index (labels ds) idx = Inr l
            \<longrightarrow> FaceDataset_getitem tr ds idx = Inr (img, sint l)))
   \<and> (\<forall>ds. FaceDataset_init imgs lbls mini maxi rot = Inr ds \<longrightarrow>
         (transform ds = None \<longleftrightarrow> mini = 1 \<and> maxi = 1 \<and> rot = 0))"
proof
  show "\<exists>ds. FaceDataset_init imgs lbls 1 1 0 = Inr ds \<and> transform ds = None
      \<and> (\<forall>img l. py_index (images ds) idx = Inr img \<longrightarrow> py_index (labels ds) idx = Inr l
            \<longrightarrow> FaceDataset_getitem tr ds idx = Inr (img, sint l))"
    by (simp add: FaceDataset_default FaceDataset_getitem_def)
next
  show "\<forall>ds. FaceDataset_init imgs lbls mini maxi rot = Inr ds \<longrightarrow>
         (transform ds = None \<longleftrightarrow> mini = 1 \<and> maxi = 1 \<and> rot = 0)"
    by (auto simp: FaceDataset_init_def Let_def RandomRotation_init_def split: if_splits)
qed

theorem FaceDataset_augmentation_optional_witness:
  "FaceDataset_getitem (\<lambda>t img. []) \<lparr>images = [[[[1 / 2]]]], labels = [3], transform = None\<rparr> 0
     = Inr ([[[1 / 2]]], 3)
   \<and> transform \<lparr>images = [[[[1 / 2]]]], labels = [3],
         transform = Some [RandomResizedCrop 48 (1 / 2, 1), RandomRotation 10]\<rparr> \<noteq> None"
  using FaceDataset_augmentation_optional [of "[[[[1 / 2]]]]" "[3]" 0 "\<lambda>t img. []" "1 / 2" 1 10]
  by (simp add: FaceDataset_init_example_plain FaceDataset_init_example_augmented py_index_def)


section \<open>Properties of prepare_data\<close>

lemma fields_nonempty: "split_space p \<noteq> []"
  by (induction p) (auto split: list.splits)

lemma digit_not_space: "is_digit c \<Longrightarrow> \<not> is_space c \<and> c \<noteq> CHR '' '' \<and> c \<noteq> CHR ''-'' \<and> c \<noteq> CHR ''+''"
  by (auto simp: is_digit_def is_space_def Let_def)

lemma space_is_space: "is_space (CHR '' '')"
  by (simp add: is_space_def)

lemma fields_chars:
  "list_all (list_all is_digit) (split_space p) \<Longrightarrow> \<forall>c \<in> set p. c = CHR '' '' \<or> is_digit c"
proof (induction p)
  case Nil
  then show ?case by simp
next
  case (Cons c cs)
  show ?case
  proof (cases "c = CHR '' ''")
    case True
    then show ?thesis using Cons by simp
  next
    case False
    obtain f fs where f: "split_space cs = f # fs" using fields_nonempty [of cs] by (cases "split_space cs") auto
    then show ?thesis using Cons False by simp
  qed
qed

lemma split_ws_fields:
  "\<forall>c \<in> set p. c = CHR '' '' \<or> is_digit c \<Longrightarrow> split_ws p = split_space p"
proof (induction p)
  case Nil
  then show ?case by simp
next
  case (Cons c cs)
  then have ih: "split_ws cs = split_space cs" by simp
  show ?case
  proof (cases "c = CHR '' ''")
    case True
    then show ?thesis using ih space_is_space by simp
  next
    case False
    then have "is_digit c" using Cons.prems by simp
    then have "\<not> is_space c" using digit_not_space by simp
    then show ?thesis using ih False by simp
  qed
qed

lemma numeral_tokens_digits:
  "list_all numeral_token ts \<Longrightarrow> list_all (list_all is_digit) ts"
  by (induction ts) (auto simp: numeral_token_def)

lemma tokens_fields:
  assumes "list_all numeral_token (split_space p)"
  shows "tokens p = split_space p"
proof -
  have "split_ws p = split_space p"
    using assms by (intro split_ws_fields fields_chars numeral_tokens_digits)
  moreover have "filter (\<lambda>t. t \<noteq> []) (split_space p) = split_space p"
    using assms by (induction "split_space p") (auto simp: list_all_iff numeral_token_def)
  ultimately show ?thesis by (simp add: tokens_def)
qed

lemma parse_int_numeral:
  assumes "numeral_token t"
  shows "parse_int t = Some (int (dec_value t))"
proof (cases t)
  case Nil
  then show ?thesis using assms by (simp add: numeral_token_def)
next
  case (Cons c cs)
  then have "is_digit c" using assms by (simp add: numeral_token_def)
  then have "c \<noteq> CHR ''-''" "c \<noteq> CHR ''+''" using digit_not_space by auto
  then show ?thesis using assms Cons by (simp add: parse_int_def numeral_token_def)
qed

lemma takeWhile_parse:
  "list_all numeral_token ts \<Longrightarrow>
   map the (takeWhile (\<lambda>v. v \<noteq> None) (map parse_int ts)) = map (\<lambda>t. int (dec_value t)) ts"
  by (induction ts) (auto simp: parse_int_numeral)

lemma fromstring_fields:
  "list_all numeral_token (split_space p) \<Longrightarrow> fromstring p = map (\<lambda>t. int (dec_value t)) (split_space p)"
  unfolding fromstring_def by (simp only: tokens_fields takeWhile_parse)

lemma fields_sevens: "split_space (concat (replicate n ''7 '') @ ''7'') = replicate (Suc n) ''7''"
  by (induction n) simp_all

lemma numeral_token_7: "numeral_token ''7''" "dec_value ''7'' = 7"
  by (simp_all add: numeral_token_def is_digit_def dec_value_def)

lemma pixel_string_sevens: "pixel_string seven_pixels"
  unfolding pixel_string_def seven_pixels_def fields_sevens
  by (simp add: list_all_iff numeral_token_7)


lemma reshape_48_48_eq:
  "length xs = 2304 \<Longrightarrow> reshape_48_48 xs = Inr (map (\<lambda>r. take 48 (drop (48 * r) xs)) [0..<48])"
  by (simp add: reshape_48_48_def)

lemma pixel_string_fromstring:
  assumes "pixel_string p"
  shows "fromstring p = map (\<lambda>t. int (dec_value t)) (split_space p)" "length (fromstring p) = 2304"
proof -
  show "fromstring p = map (\<lambda>t. int (dec_value t)) (split_space p)"
    using assms by (simp add: pixel_string_def fromstring_fields)
  then show "length (fromstring p) = 2304" using assms by (simp add: pixel_string_def)
qed

lemma fill_images_eq:
  "\<forall>r \<in> set data. pixel_string (pixels r) \<Longrightarrow>
   fill_images data
     = Inr (map (\<lambda>r. map (\<lambda>h. take 48 (drop (48 * h) (fromstring (pixels r)))) [0..<48]) data)"
proof (induction data)
  case Nil
  then show ?case by simp
next
  case (Cons r rs)
  have "length (fromstring (pixels r)) = 2304"
    using Cons.prems pixel_string_fromstring(2) by simp
  then have "reshape_48_48 (fromstring (pixels r))
     = Inr (map (\<lambda>h. take 48 (drop (48 * h) (fromstring (pixels r)))) [0..<48])"
    by (rule reshape_48_48_eq)
  moreover have "fill_images rs
     = Inr (map (\<lambda>r. map (\<lambda>h. take 48 (drop (48 * h) (fromstring (pixels r)))) [0..<48]) rs)"
    using Cons by simp
  ultimately show ?case by simp
qed

lemma pixel_value_range:
  assumes "pixel_string p" "k < 2304"
  shows "dec_value (split_space p ! k) \<le> 255"
  using assms by (simp add: pixel_string_def list_all_length)

text \<open>
  C9: on a data frame in which every \<open>pixels\<close> entry is a string of exactly 2304 integers
  between 0 and 255 (and every \<open>emotion\<close> entry is an integer), \<open>prepare_data\<close> returns: the
  images have the shape (N, 48, 48, 1), the value at row \<open>h\<close> and column \<open>w\<close> of image \<open>i\<close> is
  the integer number \<open>48 * h + w\<close> of the string of row \<open>i\<close> divided by 255, which lies between
  0 and 1, and there are N labels.
\<close>

theorem prepare_data_shape_and_range:
  assumes "\<forall>r \<in> set data. pixel_string (pixels r)"
  shows "\<exists>imgs lbls. prepare_data data = Inr (imgs, lbls)
     \<and> length imgs = length data \<and> length lbls = length data
     \<and> (\<forall>i < length data. length (imgs ! i) = 48
          \<and> (\<forall>h < 48. length (imgs ! i ! h) = 48
               \<and> (\<forall>w < 48.
                    imgs ! i ! h ! w
                      = [of_nat (dec_value (split_space (pixels (data ! i)) ! (48 * h + w))) / 255]
                    \<and> (\<forall>v \<in> set (imgs ! i ! h ! w). 0 \<le> v \<and> v \<le> 1))))"
proof -
  let ?ints = "map (\<lambda>r. map (\<lambda>h. take 48 (drop (48 * h) (fromstring (pixels r)))) [0..<48]) data"
  let ?imgs = "map (map (map (\<lambda>v. [of_int v / 255 :: rat]))) ?ints"
  have eq: "prepare_data data = Inr (?imgs, map emotion data)"
    using fill_images_eq [OF assms] by (simp add: prepare_data_def)
  have px: "?imgs ! i ! h ! w = [of_nat (dec_value (split_space (pixels (data ! i)) ! (48 * h + w))) / 255]"
    and rg: "\<forall>v \<in> set (?imgs ! i ! h ! w). 0 \<le> v \<and> v \<le> 1"
    if "i < length data" "h < 48" "w < 48" for i h w
  proof -
    have p: "pixel_string (pixels (data ! i))" using assms that(1) by simp
    have k: "48 * h + w < 2304" using that by simp
    have len: "length (fromstring (pixels (data ! i))) = 2304"
      using p by (rule pixel_string_fromstring(2))
    have lf: "length (split_space (pixels (data ! i))) = 2304" using p by (simp add: pixel_string_def)
    have "fromstring (pixels (data ! i)) ! (48 * h + w)
        = int (dec_value (split_space (pixels (data ! i)) ! (48 * h + w)))"
      using pixel_string_fromstring(1) [OF p] k lf by simp
    then show "?imgs ! i ! h ! w = [of_nat (dec_value (split_space (pixels (data ! i)) ! (48 * h + w))) / 255]"
      using that len by simp
    moreover have "dec_value (split_space (pixels (data ! i)) ! (48 * h + w)) \<le> 255"
      using p k by (rule pixel_value_range)
    ultimately show "\<forall>v \<in> set (?imgs ! i ! h ! w). 0 \<le> v \<and> v \<le> 1"
      by simp
  qed
  have sh: "length (?imgs ! i) = 48" "length (?imgs ! i ! h) = 48"
    if "i < length data" "h < 48" for i h
  proof -
    have p: "pixel_string (pixels (data ! i))" using assms that(1) by simp
    have len: "length (fromstring (pixels (data ! i))) = 2304"
      using p by (rule pixel_string_fromstring(2))
    show "length (?imgs ! i) = 48" using that by simp
    show "length (?imgs ! i ! h) = 48" using that len by simp
  qed
  show ?thesis
    apply (rule exI [of _ ?imgs], rule exI [of _ "map emotion data"])
    using eq px rg sh by simp
qed

theorem prepare_data_shape_and_range_witness:
  "\<exists>imgs. prepare_data [\<lparr>Usage = ''Training'', emotion = 3, pixels = seven_pixels\<rparr>] = Inr (imgs, [3])
     \<and> length imgs = 1 \<and> imgs ! 0 ! 47 ! 47 = [7 / 255]"
proof -
  let ?d = "[\<lparr>Usage = ''Training'', emotion = 3, pixels = seven_pixels\<rparr>]"
  have h: "\<forall>r \<in> set ?d. pixel_string (pixels r)"
    using pixel_string_sevens by simp
  obtain imgs lbls where r: "prepare_data ?d = Inr (imgs, lbls)" and n: "length imgs = length ?d"
    and px: "\<forall>i < length ?d. length (imgs ! i) = 48
          \<and> (\<forall>h < 48. length (imgs ! i ! h) = 48
               \<and> (\<forall>w < 48.
                    imgs ! i ! h ! w
                      = [of_nat (dec_value (split_space (pixels (?d ! i)) ! (48 * h + w))) / 255]
                    \<and> (\<forall>v \<in> set (imgs ! i ! h ! w). 0 \<le> v \<and> v \<le> 1)))"
    using prepare_data_shape_and_range [OF h] by blast
  have l: "lbls = [3]"
    using r by (auto simp: prepare_data_def split: sum.splits)
  have f: "split_space seven_pixels ! (48 * 47 + 47) = ''7''"
    unfolding seven_pixels_def fields_sevens by simp
  have "(0::nat) < length ?d" by simp
  then have "\<forall>h < 48. \<forall>w < 48. imgs ! 0 ! h ! w
      = [of_nat (dec_value (split_space (pixels (?d ! 0)) ! (48 * h + w))) / 255]"
    using px by blast
  then have "imgs ! 0 ! 47 ! 47 = [of_nat (dec_value (split_space (pixels (?d ! 0)) ! (48 * 47 + 47))) / 255]"
    by simp
  then have "imgs ! 0 ! 47 ! 47 = [7 / 255]"
    using f by (simp add: numeral_token_7)
  then show ?thesis using r l n by simp
qed


section \<open>Properties of main: the guard on the name\<close>

text \<open>
  C10: called with the name \<open>Current\<close>, main returns at once. The state it leaves is the
  state it was given with two lines added to the output, the banner and the message: no
  file or directory is created, changed or removed, and this holds whatever the data, the
  framework and the constructor of the network would do, since none of them is reached.
\<close>

theorem main_Current_only_prints:
  "main fw ''Current'' epochs batch load mini maxi rot att w =
    (Inr (),
     w\<lparr>stdout := stdout w @
         [[Txt ''Face Recognition Deep Learning'', Nl, Txt ''Run '',
           Quoted ''tensorboard --logdir=runs'', Txt '' in '', Quoted (cwd fw),
           Txt '' to see data.''],
          [Txt ''Cannot name the model '', Quoted ''Current'',
           Txt '' as that name is used for the current TensorBoard run.'']]\<rparr>)"
  by (simp add: main_def main_with_def main_setup_def print_def)

section \<open>Properties of main: the network to test\<close>

lemma NeuralNetwork_init_TypeError: "NeuralNetwork_init c ip = Inl TypeError"
  by (simp add: NeuralNetwork_init_def call1_def)

lemma main_load_TypeError:
  "fst (main_load (Inl TypeError) fw name load w) = Inl TypeError"
  by (simp add: main_load_def Let_def split: prod.splits option.splits)

text \<open>
  C6: loading a checkpoint with a fall-back to a new network. Whether or not \<open>load\<close> is set,
  the checkpoint exists or loads, lines 272 to 287 end in the call \<open>NeuralNetwork()\<close> of line
  287 (a failed or skipped load leaves \<open>no_model\<close> true, and the load itself fails at the
  same call inside the \<open>try\<close>), and that call raises \<open>TypeError\<close>: main raises instead of
  building a new network. \<open>main_raises\<close> below says the same of main as a whole.
\<close>

theorem main_load_raises:
  "fst (main_load (NeuralNetwork_init (cuda_is_available fw) (init_params fw)) fw name load w)
     = Inl TypeError"
  by (simp add: NeuralNetwork_init_TypeError main_load_TypeError)

lemma main_attempt_TypeError:
  "\<exists>e w'. main_attempt (Inl TypeError) fw name epochs batch load training_data testing_data
      testing_total att attempt w = (Inl e, w')"
proof -
  let ?w0 = "if att > 1
             then print [Txt ''Training attempt '', IntV (int attempt + 1), Txt '' of '',
                         IntV att, Txt ''.''] w
             else w"
  show ?thesis
  proof (cases "SummaryWriter (cwd fw) ''runs/Current'' ?w0")
    case (Pair r w1)
    show ?thesis
    proof (cases r)
      case (Inl e)
      then show ?thesis using Pair by (simp add: main_attempt_def)
    next
      case (Inr writer)
      obtain r2 w2 where l: "main_load (Inl TypeError) fw name load w1 = (r2, w2)"
        by (cases "main_load (Inl TypeError) fw name load w1") auto
      then have "r2 = Inl TypeError" using main_load_TypeError [of fw name load w1] by simp
      then show ?thesis using Pair Inr l by (simp add: main_attempt_def)
    qed
  qed
qed

lemma for_loop_raises:
  assumes "\<And>i w. \<exists>e w'. body i w = (Inl e, w')" "js \<noteq> []"
  shows "\<exists>e w'. for_loop body js w = (Inl e, w')"
proof (cases js)
  case Nil
  then show ?thesis using assms(2) by simp
next
  case (Cons i rest)
  obtain e w' where "body i w = (Inl e, w')" using assms(1) by blast
  then show ?thesis using Cons by simp
qed

lemma attempt_range_nonempty: "attempt_range load att \<noteq> []"
  by (simp add: attempt_range_def attempts_def)

lemma main_setup_None:
  "main_setup fw name mini maxi rot w = (Inr None, w1) \<Longrightarrow> name = ''Current''"
  by (auto simp: main_setup_def Let_def split: if_splits sum.splits prod.splits)

lemma main_raises:
  assumes "name \<noteq> ''Current''"
  shows "\<exists>e w'. main fw name epochs batch load mini maxi rot att w = (Inl e, w')"
proof (cases "main_setup fw name mini maxi rot w")
  case (Pair r w1)
  show ?thesis
  proof (cases r)
    case (Inl e)
    then show ?thesis using Pair by (simp add: main_def main_with_def)
  next
    case (Inr s)
    show ?thesis
    proof (cases s)
      case None
      then show ?thesis using Pair Inr main_setup_None assms by blast
    next
      case (Some t)
      obtain tr te n where t: "t = (tr, te, n)" by (cases t) auto
      have "\<exists>e w'. for_loop (main_attempt (Inl TypeError) fw name epochs batch load tr te n
                 (attempts load att)) (attempt_range load att) w1 = (Inl e, w')"
        by (rule for_loop_raises) (rule main_attempt_TypeError, rule attempt_range_nonempty)
      then show ?thesis
        using Pair Inr Some t by (simp add: main_def main_with_def NeuralNetwork_init_TypeError)
    qed
  qed
qed

section \<open>Properties of main: a run on the example\<close>

lemma example_paths:
  "resolve (''/home/user'' @ ''/Data.csv'') = [''home'', ''user'', ''Data.csv'']"
  "resolve (abspath ''/home/user'' ''runs/Current'') = [''home'', ''user'', ''runs'', ''Current'']"
  "resolve (model_path ''/home/user'' ''M'') = [''home'', ''user'', ''Models'', ''M.pt'']"
  by (simp_all add: resolve_def walk_def abspath_def model_path_def)

lemma example_details:
  "dataset_details title [1] out =
    (Inr 1, out @ [details_line title 1 [0, 1, 0, 0, 0, 0, 0]
       [Finite 0, Finite 100, Finite 0, Finite 0, Finite 0, Finite 0, Finite 0]])"
  by (simp add: dataset_details_def py_incr_def percent_def py_index_def py_truediv_def)

lemma example_prepare:
  "\<exists>imgs. prepare_data [\<lparr>Usage = u, emotion = 1, pixels = seven_pixels\<rparr>] = Inr (imgs, [1])"
proof -
  have "\<forall>r \<in> set [\<lparr>Usage = u, emotion = 1, pixels = seven_pixels\<rparr>]. pixel_string (pixels r)"
    using pixel_string_sevens by simp
  then show ?thesis
    using fill_images_eq [of "[\<lparr>Usage = u, emotion = 1, pixels = seven_pixels\<rparr>]"]
    by (simp add: prepare_data_def)
qed

lemma read_csv_stdout: "read_csv path (w\<lparr>stdout := out\<rparr>) = read_csv path w"
  by (simp add: read_csv_def)

lemma example_csv: "read_csv ''/home/user/Data.csv'' example_world = Inr example_rows"
  using example_paths(1) by (simp add: read_csv_def example_world_def)

lemma example_stdout: "stdout example_world = []"
  by (simp add: example_world_def)

lemma example_setup:
  "\<exists>training_data testing_data.
     main_setup example_framework ''M'' 1 1 0 example_world =
       (Inr (Some (training_data, testing_data, 1)), example_world\<lparr>stdout := example_report\<rparr>)"
proof -
  obtain tr where tr: "prepare_data [\<lparr>Usage = ''Training'', emotion = 1, pixels = seven_pixels\<rparr>] = Inr (tr, [1])"
    using example_prepare by blast
  obtain te where te: "prepare_data [\<lparr>Usage = ''PublicTest'', emotion = 1, pixels = seven_pixels\<rparr>] = Inr (te, [1])"
    using example_prepare by blast
  have f: "filter (\<lambda>r. Usage r = ''Training'') example_rows
             = [\<lparr>Usage = ''Training'', emotion = 1, pixels = seven_pixels\<rparr>]"
    "filter (\<lambda>r. Usage r \<noteq> ''Training'') example_rows
             = [\<lparr>Usage = ''PublicTest'', emotion = 1, pixels = seven_pixels\<rparr>]"
    by (simp_all add: example_rows_def)
  show ?thesis
    unfolding main_setup_def
    by (simp add: Let_def print_def example_framework_def read_csv_stdout example_csv f tr te
        FaceDataset_init_def example_details example_report_def example_stdout)
qed


lemma for_loop_first_raises:
  "fst (body i w) = Inl e \<Longrightarrow> for_loop body (i # js) w = body i w"
  by (cases "body i w") auto

lemma main_load_new_raises:
  "main_load (Inl TypeError) fw name False w = (Inl TypeError, w)"
  by (simp add: main_load_def)

lemma example_writer:
  "SummaryWriter ''/home/user'' ''runs/Current'' (example_world\<lparr>stdout := out\<rparr>) =
     (Inr ''/home/user/runs/Current'',
      example_world\<lparr>files := (files example_world)([''home'', ''user'', ''runs'', ''Current''] \<mapsto> Events []),
                    stdout := out\<rparr>)"
  using example_paths(2) by (simp add: SummaryWriter_def example_world_def abspath_def)

lemma example_attempt:
  "main_attempt (Inl TypeError) example_framework ''M'' epochs batch False training_data
      testing_data testing_total att attempt (example_world\<lparr>stdout := out\<rparr>) =
     (Inl TypeError,
      example_world\<lparr>files := (files example_world)([''home'', ''user'', ''runs'', ''Current''] \<mapsto> Events []),
                    stdout := (if att > 1
                               then out @ [[Txt ''Training attempt '', IntV (int attempt + 1),
                                            Txt '' of '', IntV att, Txt ''.'']]
                               else out)\<rparr>)"
proof -
  have c: "cwd example_framework = ''/home/user''" by (simp add: example_framework_def)
  show ?thesis
    unfolding main_attempt_def c
    by (simp add: print_def example_writer main_load_new_raises)
qed

lemma example_main:
  "main example_framework ''M'' epochs batch False 1 1 0 att example_world =
     (Inl TypeError,
      example_world\<lparr>files := (files example_world)([''home'', ''user'', ''runs'', ''Current''] \<mapsto> Events []),
                    stdout := (if att > 1
                               then example_report @ [[Txt ''Training attempt '', IntV 1,
                                            Txt '' of '', IntV att, Txt ''.'']]
                               else example_report)\<rparr>)"
proof -
  obtain training_data testing_data where s:
    "main_setup example_framework ''M'' 1 1 0 example_world =
       (Inr (Some (training_data, testing_data, 1)), example_world\<lparr>stdout := example_report\<rparr>)"
    using example_setup by blast
  have "0 < nat (attempts False att)" by (simp add: attempts_def)
  then have "attempt_range False att = 0 # [Suc 0..<nat (attempts False att)]"
    unfolding attempt_range_def by (rule upt_conv_Cons)
  then obtain js where js: "attempt_range False att = 0 # js" by blast
  have a: "attempts False att > 1 \<longleftrightarrow> att > 1" by (simp add: attempts_def)
  have b: "att > 1 \<Longrightarrow> attempts False att = att" by (simp add: attempts_def)
  show ?thesis
    unfolding main_def main_with_def s NeuralNetwork_init_TypeError js
    using a b
    by (simp add: for_loop_first_raises [where e = TypeError] example_attempt)
qed

section \<open>Properties of main: the loop over the attempts\<close>

text \<open>
  With the constructor as the source has it, the loop over the attempts is one run of its
  body, whatever the number of attempts asked for: the first attempt raises.
\<close>

lemma attempt_loop_first_only:
  "for_loop (main_attempt (NeuralNetwork_init c ip) fw name epochs batch load training_data
       testing_data testing_total att) (attempt_range load n) w
     = main_attempt (NeuralNetwork_init c ip) fw name epochs batch load training_data
         testing_data testing_total att 0 w"
proof -
  have "0 < nat (attempts load n)" by (simp add: attempts_def)
  then have r: "attempt_range load n = 0 # [Suc 0..<nat (attempts load n)]"
    unfolding attempt_range_def by (rule upt_conv_Cons)
  obtain e w' where "main_attempt (Inl TypeError) fw name epochs batch load training_data
      testing_data testing_total att 0 w = (Inl e, w')"
    using main_attempt_TypeError by blast
  then show ?thesis
    unfolding r NeuralNetwork_init_TypeError by simp
qed

text \<open>
  C8: the number of attempts. Called with \<open>load\<close> unset and three attempts asked for, on the
  example directory, main prints the report of the data, announces attempt 1 of 3, creates
  the directory of the current run and raises \<open>TypeError\<close> at the call \<open>NeuralNetwork()\<close> of
  line 287: the body of the loop runs once, and attempts 2 and 3 are never started. The
  state main leaves is the one below, with a single line of the loop in the output.
\<close>

theorem main_three_attempts_one_started:
  "main example_framework ''M'' 1 1 False 1 1 0 3 example_world =
     (Inl TypeError,
      example_world
        \<lparr>files := (files example_world)([''home'', ''user'', ''runs'', ''Current''] \<mapsto> Events []),
         stdout := example_report @
           [[Txt ''Training attempt '', IntV 1, Txt '' of '', IntV 3, Txt ''.'']]\<rparr>)"
  by (simp add: example_main)

section \<open>Properties of main: keeping the better checkpoint\<close>

text \<open>
  Lines 317 to 339 with the constructor as the source has it: the call \<open>NeuralNetwork()\<close> of
  line 324 raises inside the \<open>try\<close>, the bare \<open>except\<close> catches it, and the save of line 339
  follows, whatever the two accuracies are.
\<close>

lemma main_save_always_saves:
  "\<exists>w1. main_save (NeuralNetwork_init c ip) fw name batch load dataloader model accuracy w
     = save_model (cwd fw) name model w1"
  by (auto simp: main_save_def NeuralNetwork_init_TypeError mkdir_def Let_def)

text \<open>
  C1: the comparison with an existing checkpoint. Called with \<open>load\<close> unset on the example
  directory, which holds a checkpoint of the name that \<open>torch.load\<close> reads, main raises
  \<open>TypeError\<close> at line 287 of the first attempt, before a network is trained or tested and
  before lines 317 to 339 are reached. Nothing is compared: the checkpoint holds what it
  held, no new state is saved, and the directory of the current run, which line 271
  created, is left in place.
\<close>

theorem main_checkpoint_not_compared:
  "main example_framework ''M'' 1 1 False 1 1 0 1 example_world =
     (Inl TypeError,
      example_world
        \<lparr>files := (files example_world)([''home'', ''user'', ''runs'', ''Current''] \<mapsto> Events []),
         stdout := example_report\<rparr>)
   \<and> torch_load (model_path ''/home/user'' ''M'')
        (snd (main example_framework ''M'' 1 1 False 1 1 0 1 example_world)) = Inr 1
   \<and> path_exists (snd (main example_framework ''M'' 1 1 False 1 1 0 1 example_world))
        (abspath ''/home/user'' ''runs/Current'')"
proof -
  let ?w = "example_world
        \<lparr>files := (files example_world)([''home'', ''user'', ''runs'', ''Current''] \<mapsto> Events []),
         stdout := example_report\<rparr>"
  have m: "main example_framework ''M'' 1 1 False 1 1 0 1 example_world = (Inl TypeError, ?w)"
    by (simp add: example_main)
  have l: "torch_load (model_path ''/home/user'' ''M'') ?w = Inr 1"
    unfolding torch_load_def example_paths by (simp add: example_world_def)
  have e: "path_exists ?w (abspath ''/home/user'' ''runs/Current'')"
    unfolding path_exists_def example_paths by simp
  show ?thesis
    unfolding m using l e by simp
qed

end
